theory Spec2Isabelle
  imports Complex_Main
begin

section \<open>Values, errors and text helpers\<close>

text \<open>
  The embedding covers \<^verbatim>\<open>src/app/extraction.py\<close> and \<^verbatim>\<open>src/app/comparison.py\<close>.

  Modelling conventions.
  \<^item> A Python \<^verbatim>\<open>float\<close> is a rational number: arithmetic is exact, there is no rounding,
    no infinity and no NaN. The one place where rounding decides the outcome, the band
    decision of \<^verbatim>\<open>compare_numeric\<close>, is embedded a second time over binary64 doubles
    (\<open>compare_numeric_f64\<close>).
  \<^item> A Python \<^verbatim>\<open>str\<close> is a \<open>string\<close> of ASCII characters; the character classes and
    the case mappings below are the ASCII ones. Python's \<^verbatim>\<open>\s\<close>, \<^verbatim>\<open>\w\<close> and
    \<^verbatim>\<open>str.lower()\<close> also act on characters above 0x7F, which are outside this model.
  \<^item> The attribute field \<^verbatim>\<open>value: Optional[Any]\<close> holds text or a number, the two kinds
    of value that \<^verbatim>\<open>parse_nameplate_text\<close> stores.
  \<^item> An exception is the left summand of a sum type.
\<close>

datatype error = TypeError | ValueError | AttributeError | IndexError | ZeroDivisionError

datatype pyval = PStr string | PNum rat

definition ascii_upper :: string where
  "ascii_upper = ''ABCDEFGHIJKLMNOPQRSTUVWXYZ''"

definition ascii_lower :: string where
  "ascii_lower = ''abcdefghijklmnopqrstuvwxyz''"

definition lower_char :: "char \<Rightarrow> char" where
  "lower_char c = (case map_of (zip ascii_upper ascii_lower) c of Some d \<Rightarrow> d | None \<Rightarrow> c)"

definition upper_char :: "char \<Rightarrow> char" where
  "upper_char c = (case map_of (zip ascii_lower ascii_upper) c of Some d \<Rightarrow> d | None \<Rightarrow> c)"

text \<open>\<^verbatim>\<open>str.lower()\<close> and \<^verbatim>\<open>str.upper()\<close>.\<close>

definition py_lower :: "string \<Rightarrow> string" where
  "py_lower s = map lower_char s"

definition py_upper :: "string \<Rightarrow> string" where
  "py_upper s = map upper_char s"

text \<open>The ASCII characters for which \<^verbatim>\<open>str.isspace()\<close> holds; the regular expression
  class \<^verbatim>\<open>\s\<close> matches the same ones.\<close>

definition whitespace :: string where
  "whitespace = [CHR 0x09, CHR 0x0A, CHR 0x0B, CHR 0x0C, CHR 0x0D,
                 CHR 0x1C, CHR 0x1D, CHR 0x1E, CHR 0x1F, CHR 0x20]"

definition is_space :: "char \<Rightarrow> bool" where
  "is_space c = (c \<in> set whitespace)"

text \<open>\<^verbatim>\<open>str.strip()\<close>.\<close>

definition py_strip :: "string \<Rightarrow> string" where
  "py_strip s = rev (dropWhile is_space (rev (dropWhile is_space s)))"

text \<open>\<^verbatim>\<open>sep.join(xs)\<close>.\<close>

fun py_join :: "string \<Rightarrow> string list \<Rightarrow> string" where
  "py_join sep [] = []"
| "py_join sep [x] = x"
| "py_join sep (x # y # ys) = x @ sep @ py_join sep (y # ys)"

text \<open>\<^verbatim>\<open>kw in s\<close> on strings: \<open>kw\<close> occurs in \<open>s\<close> as a contiguous run.\<close>

fun starts_with :: "string \<Rightarrow> string \<Rightarrow> bool" where
  "starts_with [] s = True"
| "starts_with (k # ks) [] = False"
| "starts_with (k # ks) (c # cs) = (k = c \<and> starts_with ks cs)"

fun py_in :: "string \<Rightarrow> string \<Rightarrow> bool" where
  "py_in kw [] = starts_with kw []"
| "py_in kw (c # cs) = (starts_with kw (c # cs) \<or> py_in kw cs)"

subsection \<open>Decimal text of numbers\<close>

definition digit_chars :: string where
  "digit_chars = ''0123456789''"

definition digit_char :: "nat \<Rightarrow> char" where
  "digit_char d = digit_chars ! (d mod 10)"

fun show_nat :: "nat \<Rightarrow> string" where
  "show_nat n = (if n < 10 then [digit_char n] else show_nat (n div 10) @ [digit_char (n mod 10)])"

declare show_nat.simps [simp del]

definition round_half_even :: "rat \<Rightarrow> int" where
  "round_half_even q =
     (let f = \<lfloor>q\<rfloor>; r = q - of_int f
      in if r < 1 / 2 then f else if 1 / 2 < r then f + 1 else if even f then f else f + 1)"

text \<open>The format \<^verbatim>\<open>{x:.2f}\<close>: two decimals, the exact value rounded half to even.\<close>

definition fmt_2f :: "rat \<Rightarrow> string" where
  "fmt_2f x =
     (let m = nat (round_half_even (\<bar>x\<bar> * 100))
      in (if x < 0 then ''-'' else []) @ show_nat (m div 100) @ ''.'' @
         [digit_char (m mod 100 div 10), digit_char (m mod 10)])"

text \<open>
  \<^verbatim>\<open>str(v)\<close> and \<^verbatim>\<open>f"{v}"\<close>. The text of a float (the shortest decimal that reads back
  as the same float) is part of Python, not of the repository: the functions that print
  a float take it as the parameter \<open>repr\<close>.
\<close>

fun py_str :: "(rat \<Rightarrow> string) \<Rightarrow> pyval \<Rightarrow> string" where
  "py_str repr (PStr s) = s"
| "py_str repr (PNum x) = repr x"

fun py_str_opt :: "string option \<Rightarrow> string" where
  "py_str_opt None = ''None''"
| "py_str_opt (Some s) = s"

section \<open>The attribute model (extraction.py)\<close>

record AttributeValue =
  attr_value :: "pyval option"
  attr_unit :: "string option"
  attr_source :: "(string \<times> pyval) list"

text \<open>The constructor with \<^verbatim>\<open>__post_init__\<close>: a unit that is a string is stripped.\<close>

definition mk_AttributeValue ::
  "pyval option \<Rightarrow> string option \<Rightarrow> (string \<times> pyval) list \<Rightarrow> AttributeValue" where
  "mk_AttributeValue v u src =
     \<lparr>attr_value = v, attr_unit = map_option py_strip u, attr_source = src\<rparr>"

record EquipmentData =
  manufacturer :: AttributeValue
  model :: AttributeValue
  serial_number :: AttributeValue
  voltage :: AttributeValue
  current :: AttributeValue
  power :: AttributeValue
  frequency :: AttributeValue
  ip_rating :: AttributeValue
  certification :: AttributeValue

text \<open>\<^verbatim>\<open>EquipmentData()\<close>: every field is \<^verbatim>\<open>AttributeValue(None)\<close>.\<close>

definition new_EquipmentData :: EquipmentData where
  "new_EquipmentData =
     (let a = mk_AttributeValue None None []
      in \<lparr>manufacturer = a, model = a, serial_number = a, voltage = a, current = a,
          power = a, frequency = a, ip_rating = a, certification = a\<rparr>)"

text \<open>\<^verbatim>\<open>__dataclass_fields__\<close> in declaration order, each name with its \<^verbatim>\<open>getattr\<close>.\<close>

definition dataclass_fields :: "(string \<times> (EquipmentData \<Rightarrow> AttributeValue)) list" where
  "dataclass_fields =
     [(''manufacturer'', manufacturer), (''model'', model), (''serial_number'', serial_number),
      (''voltage'', voltage), (''current'', current), (''power'', power),
      (''frequency'', frequency), (''ip_rating'', ip_rating), (''certification'', certification)]"

section \<open>Comparison (comparison.py)\<close>

record ComparisonResult =
  field :: string
  nameplate_value :: "string option"
  submittal_value :: "string option"
  status :: string
  comment :: string
  nameplate_source :: "(string \<times> pyval) list"
  submittal_source :: "(string \<times> pyval) list"

text \<open>\<^verbatim>\<open>value / 1000.0\<close> raises \<^verbatim>\<open>TypeError\<close> on text.\<close>

fun normalise_power :: "pyval \<Rightarrow> string option \<Rightarrow> error + pyval" where
  "normalise_power v None = Inr v"
| "normalise_power v (Some u) =
     (if py_lower u = ''w'' then
        (case v of PNum x \<Rightarrow> Inr (PNum (x / 1000)) | PStr s \<Rightarrow> Inl TypeError)
      else if py_lower u \<in> {''kw'', ''kva''} then Inr v
      else Inr v)"

definition normalise_voltage :: "pyval \<Rightarrow> string option \<Rightarrow> error + pyval" where
  "normalise_voltage v u = Inr v"

definition normalise_current :: "pyval \<Rightarrow> string option \<Rightarrow> error + pyval" where
  "normalise_current v u = Inr v"

definition normalise_frequency :: "pyval \<Rightarrow> string option \<Rightarrow> error + pyval" where
  "normalise_frequency v u = Inr v"

text \<open>\<^verbatim>\<open>v == 0\<close>: text never equals a number.\<close>

fun py_eq_zero :: "pyval \<Rightarrow> bool" where
  "py_eq_zero (PNum x) = (x = 0)"
| "py_eq_zero (PStr s) = False"

text \<open>
  \<^verbatim>\<open>abs(n_val - s_val) / s_val * 100.0\<close>. The subtraction is evaluated first and raises
  \<^verbatim>\<open>TypeError\<close> unless both operands are numbers; the division raises
  \<^verbatim>\<open>ZeroDivisionError\<close> on a zero divisor.
\<close>

fun diff_pct :: "pyval \<Rightarrow> pyval \<Rightarrow> error + rat" where
  "diff_pct (PNum n) (PNum s) =
     (if s = 0 then Inl ZeroDivisionError else Inr (\<bar>n - s\<bar> / s * 100))"
| "diff_pct (PNum n) (PStr s) = Inl TypeError"
| "diff_pct (PStr n) s = Inl TypeError"

fun compare_numeric ::
  "(rat \<Rightarrow> string) \<Rightarrow> pyval option \<Rightarrow> string option \<Rightarrow> pyval option \<Rightarrow> string option \<Rightarrow> rat
     \<Rightarrow> error + (string \<times> string)" where
  "compare_numeric repr None n_unit None s_unit tolerance_pct =
     Inr (''Not Found'', ''Value missing in both nameplate and submittal.'')"
| "compare_numeric repr None n_unit (Some s_val) s_unit tolerance_pct =
     Inr (''Non-Compliant'', ''No value on nameplate.'')"
| "compare_numeric repr (Some n_val) n_unit None s_unit tolerance_pct =
     Inr (''Non-Compliant'', ''No value in submittal.'')"
| "compare_numeric repr (Some n_val) n_unit (Some s_val) s_unit tolerance_pct =
     (if py_eq_zero n_val \<and> py_eq_zero s_val then Inr (''Compliant'', ''Both values are zero.'')
      else if py_eq_zero s_val then
        Inr (''Non-Compliant'',
             ''Submittal value is zero while nameplate is '' @ py_str repr n_val @ ''.'')
      else
        (case diff_pct n_val s_val of
           Inl e \<Rightarrow> Inl e
         | Inr d \<Rightarrow>
             if d < 1 / 1000000 then Inr (''Compliant'', ''Values are identical.'')
             else if d \<le> tolerance_pct then
               Inr (''Minor Deviation'', ''Difference of '' @ fmt_2f d @ ''% within tolerance.'')
             else
               Inr (''Non-Compliant'', ''Difference of '' @ fmt_2f d @ ''% exceeds tolerance.'')))"

definition numeric_fields :: "string set" where
  "numeric_fields = {''voltage'', ''current'', ''power'', ''frequency''}"

text \<open>The normaliser that \<^verbatim>\<open>compare_attribute\<close> picks for a numeric field, applied only
  to a value that is not \<^verbatim>\<open>None\<close>.\<close>

definition normalise_field :: "string \<Rightarrow> pyval option \<Rightarrow> string option \<Rightarrow> error + pyval option" where
  "normalise_field fld v u =
     (case v of
        None \<Rightarrow> Inr None
      | Some x \<Rightarrow>
          map_sum id Some
            (if fld = ''power'' then normalise_power x u
             else if fld = ''voltage'' then normalise_voltage x u
             else if fld = ''current'' then normalise_current x u
             else normalise_frequency x u))"

definition compare_attribute ::
  "(rat \<Rightarrow> string) \<Rightarrow> AttributeValue \<Rightarrow> AttributeValue \<Rightarrow> string \<Rightarrow> error + ComparisonResult" where
  "compare_attribute repr nameplate_attr submittal_attr fld =
     (let np_val = attr_value nameplate_attr; np_unit = attr_unit nameplate_attr;
          sm_val = attr_value submittal_attr; sm_unit = attr_unit submittal_attr
      in if fld \<in> numeric_fields then
           (case normalise_field fld np_val np_unit of
              Inl e \<Rightarrow> Inl e
            | Inr np_norm \<Rightarrow>
               (case normalise_field fld sm_val sm_unit of
                  Inl e \<Rightarrow> Inl e
                | Inr sm_norm \<Rightarrow>
                   (case compare_numeric repr np_norm np_unit sm_norm sm_unit 5 of
                      Inl e \<Rightarrow> Inl e
                    | Inr (st, cm) \<Rightarrow>
                        Inr \<lparr>field = fld,
                             nameplate_value =
                               map_option (\<lambda>v. py_str repr v @ '' '' @ py_str_opt np_unit) np_val,
                             submittal_value =
                               map_option (\<lambda>v. py_str repr v @ '' '' @ py_str_opt sm_unit) sm_val,
                             status = st, comment = cm,
                             nameplate_source = attr_source nameplate_attr,
                             submittal_source = attr_source submittal_attr\<rparr>)))
         else
           (let (st, cm) =
                  (case (np_val, sm_val) of
                     (None, None) \<Rightarrow> (''Not Found'', ''Value missing in both nameplate and submittal.'')
                   | (None, Some s) \<Rightarrow> (''Non-Compliant'', ''No value on nameplate.'')
                   | (Some n, None) \<Rightarrow> (''Non-Compliant'', ''No value in submittal.'')
                   | (Some n, Some s) \<Rightarrow>
                       if py_lower (py_strip (py_str repr n)) = py_lower (py_strip (py_str repr s))
                       then (''Compliant'', ''Values match.'')
                       else (''Non-Compliant'',
                             ''Nameplate value '' @ [CHR 0x27] @ py_str repr n @ [CHR 0x27] @
                             '' differs from submittal value '' @ [CHR 0x27] @ py_str repr s @
                             [CHR 0x27] @ ''.''))
            in Inr \<lparr>field = fld,
                    nameplate_value = map_option (py_str repr) np_val,
                    submittal_value = map_option (py_str repr) sm_val,
                    status = st, comment = cm,
                    nameplate_source = attr_source nameplate_attr,
                    submittal_source = attr_source submittal_attr\<rparr>))"

text \<open>The loop of \<^verbatim>\<open>compare_equipment\<close> over the declared fields; an exception of
  \<^verbatim>\<open>compare_attribute\<close> ends it.\<close>

fun compare_fields ::
  "(rat \<Rightarrow> string) \<Rightarrow> EquipmentData \<Rightarrow> EquipmentData
     \<Rightarrow> (string \<times> (EquipmentData \<Rightarrow> AttributeValue)) list \<Rightarrow> error + ComparisonResult list" where
  "compare_fields repr nameplate submittal [] = Inr []"
| "compare_fields repr nameplate submittal ((field_name, getattr) # fs) =
     (case compare_attribute repr (getattr nameplate) (getattr submittal) field_name of
        Inl e \<Rightarrow> Inl e
      | Inr r \<Rightarrow>
          (case compare_fields repr nameplate submittal fs of
             Inl e \<Rightarrow> Inl e
           | Inr rs \<Rightarrow> Inr (r # rs)))"

definition compare_equipment ::
  "(rat \<Rightarrow> string) \<Rightarrow> EquipmentData \<Rightarrow> EquipmentData \<Rightarrow> error + ComparisonResult list" where
  "compare_equipment repr nameplate submittal =
     compare_fields repr nameplate submittal dataclass_fields"

section \<open>Regular expressions (the part of Python's re that extraction.py uses)\<close>

text \<open>
  The patterns of \<^verbatim>\<open>extraction.py\<close> use literals, character classes, the greedy
  quantifiers \<^verbatim>\<open>*\<close> and \<^verbatim>\<open>+\<close> on a character class, \<^verbatim>\<open>?\<close>, alternation,
  concatenation and numbered groups. \<open>rx_match\<close> is the backtracking matcher anchored at the
  start of the text: it returns every way to match, as the rest of the text and the groups
  bound, in the order in which Python's matcher tries them (the left alternative first,
  the longest repetition first). The head of the list is the match Python reports.
\<close>

datatype rx =
    Lit string
  | One "char \<Rightarrow> bool"
  | Star "char \<Rightarrow> bool"
  | Plus "char \<Rightarrow> bool"
  | Seq rx rx
  | Alt rx rx
  | Opt rx
  | Grp nat rx

type_synonym groups = "(nat \<times> string) list"

text \<open>With \<^verbatim>\<open>re.IGNORECASE\<close> (\<open>ic\<close>) letters match in either case.\<close>

definition chr_eq :: "bool \<Rightarrow> char \<Rightarrow> char \<Rightarrow> bool" where
  "chr_eq ic a b = (if ic then lower_char a = lower_char b else a = b)"

definition cls_ok :: "bool \<Rightarrow> (char \<Rightarrow> bool) \<Rightarrow> char \<Rightarrow> bool" where
  "cls_ok ic p c = (p c \<or> (ic \<and> (p (lower_char c) \<or> p (upper_char c))))"

fun lit_match :: "bool \<Rightarrow> string \<Rightarrow> string \<Rightarrow> string option" where
  "lit_match ic [] s = Some s"
| "lit_match ic (k # ks) [] = None"
| "lit_match ic (k # ks) (c # cs) = (if chr_eq ic k c then lit_match ic ks cs else None)"

text \<open>The rests of the text after a greedy repetition, the longest run first.\<close>

fun star_match :: "(char \<Rightarrow> bool) \<Rightarrow> string \<Rightarrow> string list" where
  "star_match p [] = [[]]"
| "star_match p (c # cs) = (if p c then star_match p cs @ [c # cs] else [c # cs])"

fun plus_match :: "(char \<Rightarrow> bool) \<Rightarrow> string \<Rightarrow> string list" where
  "plus_match p [] = []"
| "plus_match p (c # cs) = (if p c then star_match p cs else [])"

fun rx_match :: "bool \<Rightarrow> rx \<Rightarrow> string \<Rightarrow> groups \<Rightarrow> (string \<times> groups) list" where
  "rx_match ic (Lit l) s g = (case lit_match ic l s of None \<Rightarrow> [] | Some r \<Rightarrow> [(r, g)])"
| "rx_match ic (One p) s g =
     (case s of [] \<Rightarrow> [] | c # cs \<Rightarrow> if cls_ok ic p c then [(cs, g)] else [])"
| "rx_match ic (Star p) s g = map (\<lambda>r. (r, g)) (star_match (cls_ok ic p) s)"
| "rx_match ic (Plus p) s g = map (\<lambda>r. (r, g)) (plus_match (cls_ok ic p) s)"
| "rx_match ic (Seq a b) s g =
     concat (map (\<lambda>m. rx_match ic b (fst m) (snd m)) (rx_match ic a s g))"
| "rx_match ic (Alt a b) s g = rx_match ic a s g @ rx_match ic b s g"
| "rx_match ic (Opt a) s g = rx_match ic a s g @ [(s, g)]"
| "rx_match ic (Grp i a) s g =
     map (\<lambda>m. (fst m, (i, take (length s - length (fst m)) s) # snd m)) (rx_match ic a s g)"

text \<open>The group numbers that occur in a pattern.\<close>

fun rx_groups :: "rx \<Rightarrow> nat list" where
  "rx_groups (Seq a b) = rx_groups a @ rx_groups b"
| "rx_groups (Alt a b) = rx_groups a @ rx_groups b"
| "rx_groups (Opt a) = rx_groups a"
| "rx_groups (Grp i a) = i # rx_groups a"
| "rx_groups r = []"

text \<open>
  A match object: the group numbers of the pattern and the groups bound by the match.
  \<^verbatim>\<open>m.group(i)\<close> raises \<^verbatim>\<open>IndexError\<close> for a group the pattern does not have and is
  \<^verbatim>\<open>None\<close> for a group that took no part in the match.
\<close>

type_synonym match = "nat list \<times> groups"

definition group :: "match \<Rightarrow> nat \<Rightarrow> error + string option" where
  "group m i = (if i \<in> set (fst m) then Inr (map_of (snd m) i) else Inl IndexError)"

text \<open>\<^verbatim>\<open>re.search\<close>: the first match at the leftmost start position, the end of the text
  included.\<close>

fun search_from :: "bool \<Rightarrow> rx \<Rightarrow> string \<Rightarrow> groups option" where
  "search_from ic r [] = (case rx_match ic r [] [] of [] \<Rightarrow> None | m # ms \<Rightarrow> Some (snd m))"
| "search_from ic r (c # cs) =
     (case rx_match ic r (c # cs) [] of [] \<Rightarrow> search_from ic r cs | m # ms \<Rightarrow> Some (snd m))"

definition re_search :: "bool \<Rightarrow> rx \<Rightarrow> string \<Rightarrow> match option" where
  "re_search ic r s = map_option (\<lambda>g. (rx_groups r, g)) (search_from ic r s)"

section \<open>Extraction (extraction.py)\<close>

definition is_digit :: "char \<Rightarrow> bool" where
  "is_digit c = (c \<in> set digit_chars)"

text \<open>The class \<^verbatim>\<open>\w\<close>.\<close>

definition is_word :: "char \<Rightarrow> bool" where
  "is_word c = (c \<in> set (ascii_lower @ ascii_upper @ digit_chars @ ''_''))"

definition digit_value :: "char \<Rightarrow> nat" where
  "digit_value c =
     (case map_of (zip digit_chars [0, 1, 2, 3, 4, 5, 6, 7, 8, 9]) c of Some d \<Rightarrow> d | None \<Rightarrow> 0)"

definition digits_value :: "string \<Rightarrow> nat" where
  "digits_value ds = foldl (\<lambda>a c. 10 * a + digit_value c) 0 ds"

text \<open>
  \<^verbatim>\<open>float(s)\<close> on plain decimals: digits, optionally a point and digits, at least one
  digit in all. Every other string is \<^verbatim>\<open>ValueError\<close> here; Python also reads signs,
  exponents, underscores, inf, nan and surrounding blanks, none of which the first group
  of the patterns below can hold.
\<close>

definition py_float :: "string \<Rightarrow> error + rat" where
  "py_float s =
     (let ip = takeWhile is_digit s
      in case dropWhile is_digit s of
           [] \<Rightarrow> if ip = [] then Inl ValueError else Inr (of_nat (digits_value ip))
         | c # fp \<Rightarrow>
             if c = CHR ''.'' \<and> list_all is_digit fp \<and> \<not> (ip = [] \<and> fp = []) then
               Inr (of_nat (digits_value ip) + of_nat (digits_value fp) / 10 ^ length fp)
             else Inl ValueError)"

fun parse_numeric_with_unit :: "string \<Rightarrow> rx list \<Rightarrow> error + (rat option \<times> string option)" where
  "parse_numeric_with_unit text [] = Inr (None, None)"
| "parse_numeric_with_unit text (pattern # patterns) =
     (case re_search True pattern text of
        None \<Rightarrow> parse_numeric_with_unit text patterns
      | Some m \<Rightarrow>
          (case group m 1 of
             Inl e \<Rightarrow> Inl e
           | Inr None \<Rightarrow> Inl AttributeError
           | Inr (Some g1) \<Rightarrow>
               (case py_float (filter (\<lambda>c. c \<noteq> CHR '','') g1) of
                  Inl e \<Rightarrow> if e = ValueError then parse_numeric_with_unit text patterns else Inl e
                | Inr v \<Rightarrow>
                    (case group m 2 of Inl e \<Rightarrow> Inl e | Inr u \<Rightarrow> Inr (Some v, u)))))"

text \<open>The patterns of \<^verbatim>\<open>parse_nameplate_text\<close>.\<close>

definition ws :: rx where
  "ws = Star is_space"

text \<open>\<^verbatim>\<open>\s*[:\-]\s*\<close>\<close>

definition label_sep :: rx where
  "label_sep = Seq ws (Seq (One (\<lambda>c. c \<in> set '':-'')) ws)"

text \<open>\<^verbatim>\<open>(?:manufacturer|mfr)\s*[:\-]\s*([\w\s&\.]+)\<close>\<close>

definition mfr_pattern :: rx where
  "mfr_pattern =
     Seq (Alt (Lit ''manufacturer'') (Lit ''mfr''))
       (Seq label_sep (Grp 1 (Plus (\<lambda>c. is_word c \<or> is_space c \<or> c \<in> set ''&.''))))"

text \<open>\<^verbatim>\<open>(?:model|mdl)\s*[:\-]\s*([\w\-\/]+)\<close>\<close>

definition model_pattern :: rx where
  "model_pattern =
     Seq (Alt (Lit ''model'') (Lit ''mdl''))
       (Seq label_sep (Grp 1 (Plus (\<lambda>c. is_word c \<or> c \<in> set ''-/''))))"

text \<open>\<^verbatim>\<open>(?:serial number|s/n|sn)\s*[:\-]\s*([\w\-\/]+)\<close>\<close>

definition sn_pattern :: rx where
  "sn_pattern =
     Seq (Alt (Lit ''serial number'') (Alt (Lit ''s/n'') (Lit ''sn'')))
       (Seq label_sep (Grp 1 (Plus (\<lambda>c. is_word c \<or> c \<in> set ''-/''))))"

text \<open>\<^verbatim>\<open>([0-9]+(?:\.[0-9]+)?)\s*(u1|u2|...)\<close> for the unit alternatives \<open>us\<close>.\<close>

definition number_group :: rx where
  "number_group = Grp 1 (Seq (Plus is_digit) (Opt (Seq (Lit ''.'') (Plus is_digit))))"

fun alternatives :: "string list \<Rightarrow> rx" where
  "alternatives [] = Lit []"
| "alternatives [u] = Lit u"
| "alternatives (u # v # us) = Alt (Lit u) (alternatives (v # us))"

definition number_unit :: "string list \<Rightarrow> rx" where
  "number_unit us = Seq number_group (Seq ws (Grp 2 (alternatives us)))"

definition voltage_patterns :: "rx list" where
  "voltage_patterns = [number_unit [''v'', ''vac'', ''volts'']]"

definition current_patterns :: "rx list" where
  "current_patterns = [number_unit [''a'', ''amps'', ''ampere'']]"

definition power_patterns :: "rx list" where
  "power_patterns = [number_unit [''kw'', ''kva'', ''w'']]"

definition frequency_patterns :: "rx list" where
  "frequency_patterns = [number_unit [''hz'']]"

text \<open>\<^verbatim>\<open>ip\s*([0-9]{2})\<close>\<close>

definition ip_pattern :: rx where
  "ip_pattern = Seq (Lit ''ip'') (Seq ws (Grp 1 (Seq (One is_digit) (One is_digit))))"

definition bind_err :: "error + 'a \<Rightarrow> ('a \<Rightarrow> error + 'b) \<Rightarrow> error + 'b" where
  "bind_err x f = (case x of Inl e \<Rightarrow> Inl e | Inr v \<Rightarrow> f v)"

text \<open>
  The three label blocks of \<^verbatim>\<open>parse_nameplate_text\<close> share one shape: search the
  pattern without flags; on a match the field holds \<^verbatim>\<open>match.group(1).strip()\<close>, where
  \<^verbatim>\<open>.strip()\<close> on \<^verbatim>\<open>None\<close> raises \<^verbatim>\<open>AttributeError\<close>.
\<close>

definition label_value :: "rx \<Rightarrow> string \<Rightarrow> error + AttributeValue option" where
  "label_value pattern lower =
     (case re_search False pattern lower of
        None \<Rightarrow> Inr None
      | Some m \<Rightarrow>
          (case group m 1 of
             Inl e \<Rightarrow> Inl e
           | Inr None \<Rightarrow> Inl AttributeError
           | Inr (Some g1) \<Rightarrow> Inr (Some (mk_AttributeValue (Some (PStr (py_strip g1))) None []))))"

text \<open>The four numeric blocks: the field is set when the value is not \<^verbatim>\<open>None\<close>.\<close>

definition numeric_value :: "string \<Rightarrow> rx list \<Rightarrow> error + AttributeValue option" where
  "numeric_value lower patterns =
     bind_err (parse_numeric_with_unit lower patterns)
       (\<lambda>(v, u). Inr (case v of None \<Rightarrow> None
                       | Some x \<Rightarrow> Some (mk_AttributeValue (Some (PNum x)) u [])))"

text \<open>The IP block: \<^verbatim>\<open>f"IP{ip_match.group(1)}"\<close> prints a group that is \<^verbatim>\<open>None\<close> as
  None.\<close>

definition ip_value :: "string \<Rightarrow> error + AttributeValue option" where
  "ip_value lower =
     (case re_search False ip_pattern lower of
        None \<Rightarrow> Inr None
      | Some m \<Rightarrow>
          bind_err (group m 1)
            (\<lambda>g1. Inr (Some (mk_AttributeValue (Some (PStr (''IP'' @ py_str_opt g1))) None []))))"

definition cert_keywords :: "string list" where
  "cert_keywords = [''atex'', ''ce'', ''ul'']"

text \<open>The list \<^verbatim>\<open>certs\<close> after the keyword loop.\<close>

definition certs_of :: "string \<Rightarrow> string list" where
  "certs_of lower = map py_upper (filter (\<lambda>keyword. py_in keyword lower) cert_keywords)"

definition cert_value :: "string \<Rightarrow> AttributeValue option" where
  "cert_value lower =
     (let certs = certs_of lower
      in if certs \<noteq> [] then Some (mk_AttributeValue (Some (PStr (py_join '', '' certs))) None [])
         else None)"

text \<open>An assignment \<^verbatim>\<open>data.f = a\<close> that happens only when the block found a value.\<close>

definition assign ::
  "((AttributeValue \<Rightarrow> AttributeValue) \<Rightarrow> EquipmentData \<Rightarrow> EquipmentData)
     \<Rightarrow> AttributeValue option \<Rightarrow> EquipmentData \<Rightarrow> EquipmentData" where
  "assign upd a data = (case a of None \<Rightarrow> data | Some x \<Rightarrow> upd (\<lambda>_. x) data)"

definition parse_nameplate_text :: "string \<Rightarrow> error + EquipmentData" where
  "parse_nameplate_text text =
     (let data = new_EquipmentData; lower = py_lower text
      in bind_err (label_value mfr_pattern lower) (\<lambda>a.
         let data = assign manufacturer_update a data
         in bind_err (label_value model_pattern lower) (\<lambda>a.
         let data = assign model_update a data
         in bind_err (label_value sn_pattern lower) (\<lambda>a.
         let data = assign serial_number_update a data
         in bind_err (numeric_value lower voltage_patterns) (\<lambda>a.
         let data = assign voltage_update a data
         in bind_err (numeric_value lower current_patterns) (\<lambda>a.
         let data = assign current_update a data
         in bind_err (numeric_value lower power_patterns) (\<lambda>a.
         let data = assign power_update a data
         in bind_err (numeric_value lower frequency_patterns) (\<lambda>a.
         let data = assign frequency_update a data
         in bind_err (ip_value lower) (\<lambda>a.
         let data = assign ip_rating_update a data
         in Inr (assign certification_update (cert_value lower) data))))))))))"

definition parse_submittal_text :: "string \<Rightarrow> error + EquipmentData" where
  "parse_submittal_text text = parse_nameplate_text text"

section \<open>compare_numeric on doubles (comparison.py, binary64 arithmetic)\<close>




















section \<open>Properties of the comparison\<close>

lemma normalise_field_None: "normalise_field fld None u = Inr None"
  by (simp add: normalise_field_def)

lemma normalise_field_plain:
  "fld \<noteq> ''power'' \<Longrightarrow> normalise_field fld (Some v) u = Inr (Some v)"
  by (simp add: normalise_field_def normalise_voltage_def normalise_current_def
      normalise_frequency_def)

lemma normalise_power_num:
  "normalise_power (PNum x) u =
     Inr (PNum (if map_option py_lower u = Some ''w'' then x / 1000 else x))"
  by (cases u) simp_all

lemma normalise_field_num: "\<exists>y. normalise_field fld (Some (PNum x)) u = Inr (Some (PNum y))"
proof (cases "fld = ''power''")
  case True
  obtain y where "normalise_power (PNum x) u = Inr (PNum y)"
    unfolding normalise_power_num by blast
  with True show ?thesis by (simp add: normalise_field_def)
next
  case False
  then show ?thesis by (simp add: normalise_field_plain)
qed

lemma compare_numeric_num:
  "\<exists>st cm. compare_numeric repr (Some (PNum n)) nu (Some (PNum s)) su tol = Inr (st, cm)"
  by simp

lemma compare_numeric_no_zero_division:
  "compare_numeric repr a nu b su tol \<noteq> Inl ZeroDivisionError"
proof (cases a)
  case None
  then show ?thesis by (cases b) simp_all
next
  case (Some n)
  show ?thesis
  proof (cases b)
    case None
    with Some show ?thesis by simp
  next
    case (Some s)
    with \<open>a = Some n\<close> show ?thesis
      by (cases n; cases s) (simp_all)
  qed
qed

lemma compare_attribute_field: "compare_attribute repr a b fld = Inr r \<Longrightarrow> field r = fld"
  by (auto simp: compare_attribute_def Let_def split: sum.splits prod.splits if_splits)

lemma compare_attribute_categorical:
  "fld \<notin> numeric_fields \<Longrightarrow> \<exists>r. compare_attribute repr a b fld = Inr r"
  by (simp add: compare_attribute_def Let_def split: prod.splits)

lemma compare_attribute_numeric:
  assumes "fld \<in> numeric_fields"
    and "normalise_field fld (attr_value a) (attr_unit a) = Inr x"
    and "normalise_field fld (attr_value b) (attr_unit b) = Inr y"
  shows "map_sum id (\<lambda>r. (status r, comment r)) (compare_attribute repr a b fld) =
           compare_numeric repr x (attr_unit a) y (attr_unit b) 5"
  using assms by (simp add: compare_attribute_def Let_def split: sum.splits prod.splits)

text \<open>
  Claim C3. Numeric comparison is not symmetric under swapping reference and candidate,
  since the candidate is the denominator: 95 against 100 is 5 percent (Minor Deviation),
  100 against 95 is 5.26 percent (Non-Compliant).
\<close>

theorem C3_not_symmetric:
  "\<exists>A B. A \<noteq> B \<and> A \<noteq> 0 \<and> B \<noteq> 0 \<and>
     map_sum id status
       (compare_attribute repr (mk_AttributeValue (Some (PNum A)) (Some ''v'') [])
          (mk_AttributeValue (Some (PNum B)) (Some ''v'') []) ''voltage'') = Inr ''Minor Deviation'' \<and>
     map_sum id status
       (compare_attribute repr (mk_AttributeValue (Some (PNum B)) (Some ''v'') [])
          (mk_AttributeValue (Some (PNum A)) (Some ''v'') []) ''voltage'') = Inr ''Non-Compliant'' \<and>
     compare_numeric repr (Some (PNum A)) (Some ''v'') (Some (PNum B)) (Some ''v'') 5 =
       Inr (''Minor Deviation'', ''Difference of 5.00% within tolerance.'') \<and>
     compare_numeric repr (Some (PNum B)) (Some ''v'') (Some (PNum A)) (Some ''v'') 5 =
       Inr (''Non-Compliant'', ''Difference of 5.26% exceeds tolerance.'')"
proof -
  have f1: "fmt_2f 5 = ''5.00''" by code_simp
  have f2: "fmt_2f (100 / 19) = ''5.26''" by code_simp
  show ?thesis
    apply (rule exI [of _ 95], rule exI [of _ 100])
    apply (simp add: compare_attribute_def numeric_fields_def normalise_field_def
        normalise_voltage_def mk_AttributeValue_def f1 f2)
    done
qed

lemma compare_attribute_no_zero_division:
  "compare_attribute repr a b fld \<noteq> Inl ZeroDivisionError"
proof (cases "fld \<in> numeric_fields")
  case False
  then show ?thesis using compare_attribute_categorical [of fld repr a b] by auto
next
  case True
  have np: "normalise_power v u \<noteq> Inl ZeroDivisionError" for v u
    by (cases u; cases v) simp_all
  have nf: "normalise_field fld v u \<noteq> Inl ZeroDivisionError" for v u
    using np by (cases v)
      (auto simp: normalise_field_def normalise_voltage_def normalise_current_def
        normalise_frequency_def map_sum_def split: sum.splits)
  show ?thesis
  proof (cases "normalise_field fld (attr_value a) (attr_unit a)")
    case (Inl e)
    with nf [of "attr_value a" "attr_unit a"] True show ?thesis
      by (simp add: compare_attribute_def Let_def)
  next
    case x: (Inr x)
    show ?thesis
    proof (cases "normalise_field fld (attr_value b) (attr_unit b)")
      case (Inl e)
      with nf [of "attr_value b" "attr_unit b"] True x show ?thesis
        by (simp add: compare_attribute_def Let_def)
    next
      case y: (Inr y)
      have "map_sum id (\<lambda>r. (status r, comment r)) (compare_attribute repr a b fld) =
          compare_numeric repr x (attr_unit a) y (attr_unit b) 5"
        using True x y by (rule compare_attribute_numeric)
      with compare_numeric_no_zero_division [of repr x "attr_unit a" y "attr_unit b" 5]
      show ?thesis by (cases "compare_attribute repr a b fld") auto
    qed
  qed
qed

text \<open>
  Claim C6. Numeric comparison never divides by zero. For a numeric field with both
  values present, \<open>n\<close> and \<open>s\<close> the normalised nameplate and submittal magnitudes: if
  both are zero the status is Compliant with the rationale "Both values are zero."; if
  \<open>s\<close> is zero and \<open>n\<close> is not, the status is Non-Compliant and the rationale prints
  \<open>n\<close>; the division is reached only with a nonzero \<open>s\<close>, so neither
  \<^verbatim>\<open>compare_numeric\<close> nor \<^verbatim>\<open>compare_attribute\<close> ever raises \<^verbatim>\<open>ZeroDivisionError\<close>.
\<close>

theorem C6_zero_handling:
  assumes "fld \<in> numeric_fields"
    and "normalise_field fld (attr_value a) (attr_unit a) = Inr (Some (PNum n))"
    and "normalise_field fld (attr_value b) (attr_unit b) = Inr (Some (PNum s))"
  shows "(n = 0 \<and> s = 0 \<longrightarrow>
            map_sum id (\<lambda>r. (status r, comment r)) (compare_attribute repr a b fld) =
              Inr (''Compliant'', ''Both values are zero.''))
       \<and> (n \<noteq> 0 \<and> s = 0 \<longrightarrow>
            map_sum id (\<lambda>r. (status r, comment r)) (compare_attribute repr a b fld) =
              Inr (''Non-Compliant'',
                   ''Submittal value is zero while nameplate is '' @ repr n @ ''.''))
       \<and> (s \<noteq> 0 \<longrightarrow> diff_pct (PNum n) (PNum s) = Inr (\<bar>n - s\<bar> / s * 100))
       \<and> compare_numeric repr x nu y su tol \<noteq> Inl ZeroDivisionError
       \<and> compare_attribute repr a' b' fld' \<noteq> Inl ZeroDivisionError"
proof -
  have num: "map_sum id (\<lambda>r. (status r, comment r)) (compare_attribute repr a b fld) =
      compare_numeric repr (Some (PNum n)) (attr_unit a) (Some (PNum s)) (attr_unit b) 5"
    using assms by (rule compare_attribute_numeric)
  have z: "n = 0 \<and> s = 0 \<longrightarrow>
      map_sum id (\<lambda>r. (status r, comment r)) (compare_attribute repr a b fld) =
        Inr (''Compliant'', ''Both values are zero.'')"
    unfolding num by simp
  have nz: "n \<noteq> 0 \<and> s = 0 \<longrightarrow>
      map_sum id (\<lambda>r. (status r, comment r)) (compare_attribute repr a b fld) =
        Inr (''Non-Compliant'', ''Submittal value is zero while nameplate is '' @ repr n @ ''.'')"
    unfolding num by simp
  have dv: "s \<noteq> 0 \<longrightarrow> diff_pct (PNum n) (PNum s) = Inr (\<bar>n - s\<bar> / s * 100)"
    by simp
  from z nz dv compare_numeric_no_zero_division [of repr x nu y su tol]
    compare_attribute_no_zero_division [of repr a' b' fld']
  show ?thesis by blast
qed

text \<open>The theorem on the field voltage at 0 against 0, 400 against 0 and 400 against
  380.\<close>

theorem C6_zero_handling_witness:
  "map_sum id (\<lambda>r. (status r, comment r))
     (compare_attribute (\<lambda>x. ''400.0'')
        \<lparr>attr_value = Some (PNum 0), attr_unit = Some ''v'', attr_source = []\<rparr>
        \<lparr>attr_value = Some (PNum 0), attr_unit = Some ''v'', attr_source = []\<rparr> ''voltage'') =
   Inr (''Compliant'', ''Both values are zero.'')
   \<and> map_sum id (\<lambda>r. (status r, comment r))
     (compare_attribute (\<lambda>x. ''400.0'')
        \<lparr>attr_value = Some (PNum 400), attr_unit = Some ''v'', attr_source = []\<rparr>
        \<lparr>attr_value = Some (PNum 0), attr_unit = Some ''v'', attr_source = []\<rparr> ''voltage'') =
   Inr (''Non-Compliant'', ''Submittal value is zero while nameplate is 400.0.'')
   \<and> diff_pct (PNum 400) (PNum 380) = Inr (100 / 19)"
proof -
  have f: "''voltage'' \<in> numeric_fields" by (simp add: numeric_fields_def)
  have v: "normalise_field ''voltage''
      (attr_value \<lparr>attr_value = Some (PNum k), attr_unit = Some ''v'', attr_source = []\<rparr>)
      (attr_unit \<lparr>attr_value = Some (PNum k), attr_unit = Some ''v'', attr_source = []\<rparr>) =
      Inr (Some (PNum k))" for k
    by (simp add: normalise_field_plain)
  show ?thesis
    using C6_zero_handling [OF f v [of 0] v [of 0], of "\<lambda>x. ''400.0''"]
          C6_zero_handling [OF f v [of 400] v [of 0], of "\<lambda>x. ''400.0''"]
          C6_zero_handling [OF f v [of 400] v [of 380], of "\<lambda>x. ''400.0''"]
    by simp
qed

text \<open>
  Claim C7. For every field name: if both sides have no value the status is Not Found
  and the rationale says the value is missing on both sides; if exactly one side has no
  value the status is Non-Compliant and the rationale names the side without a value.
  The value present in a numeric field is a number (on the field power, text with the
  unit W raises \<^verbatim>\<open>TypeError\<close> in \<^verbatim>\<open>normalise_power\<close>).
\<close>

theorem C7_missing_values:
  "(attr_value a = None \<and> attr_value b = None \<longrightarrow>
      map_sum id (\<lambda>r. (status r, comment r)) (compare_attribute repr a b fld) =
        Inr (''Not Found'', ''Value missing in both nameplate and submittal.''))
 \<and> (attr_value a = None \<and> attr_value b = Some v \<and>
      (fld \<in> numeric_fields \<longrightarrow> (\<forall>t. v \<noteq> PStr t)) \<longrightarrow>
      map_sum id (\<lambda>r. (status r, comment r)) (compare_attribute repr a b fld) =
        Inr (''Non-Compliant'', ''No value on nameplate.''))
 \<and> (attr_value a = Some v \<and> attr_value b = None \<and>
      (fld \<in> numeric_fields \<longrightarrow> (\<forall>t. v \<noteq> PStr t)) \<longrightarrow>
      map_sum id (\<lambda>r. (status r, comment r)) (compare_attribute repr a b fld) =
        Inr (''Non-Compliant'', ''No value in submittal.''))"
proof (cases "fld \<in> numeric_fields")
  case False
  then show ?thesis by (simp add: compare_attribute_def Let_def)
next
  case True
  have nn: "normalise_field fld None u = Inr None" for u
    by (rule normalise_field_None)
  have both: "attr_value a = None \<and> attr_value b = None \<longrightarrow>
      map_sum id (\<lambda>r. (status r, comment r)) (compare_attribute repr a b fld) =
        Inr (''Not Found'', ''Value missing in both nameplate and submittal.'')"
  proof
    assume h: "attr_value a = None \<and> attr_value b = None"
    have "map_sum id (\<lambda>r. (status r, comment r)) (compare_attribute repr a b fld) =
        compare_numeric repr None (attr_unit a) None (attr_unit b) 5"
      using True by (rule compare_attribute_numeric) (simp_all add: h nn)
    then show "map_sum id (\<lambda>r. (status r, comment r)) (compare_attribute repr a b fld) =
        Inr (''Not Found'', ''Value missing in both nameplate and submittal.'')" by simp
  qed
  have left: "attr_value a = None \<and> attr_value b = Some v \<and>
      (fld \<in> numeric_fields \<longrightarrow> (\<forall>t. v \<noteq> PStr t)) \<longrightarrow>
      map_sum id (\<lambda>r. (status r, comment r)) (compare_attribute repr a b fld) =
        Inr (''Non-Compliant'', ''No value on nameplate.'')"
  proof
    assume h: "attr_value a = None \<and> attr_value b = Some v \<and>
      (fld \<in> numeric_fields \<longrightarrow> (\<forall>t. v \<noteq> PStr t))"
    with True obtain x where vx: "v = PNum x" by (cases v) auto
    obtain y where y: "normalise_field fld (Some (PNum x)) (attr_unit b) = Inr (Some (PNum y))"
      using normalise_field_num by blast
    have "map_sum id (\<lambda>r. (status r, comment r)) (compare_attribute repr a b fld) =
        compare_numeric repr None (attr_unit a) (Some (PNum y)) (attr_unit b) 5"
      using True by (rule compare_attribute_numeric) (simp_all add: h nn vx y)
    then show "map_sum id (\<lambda>r. (status r, comment r)) (compare_attribute repr a b fld) =
        Inr (''Non-Compliant'', ''No value on nameplate.'')" by simp
  qed
  have right: "attr_value a = Some v \<and> attr_value b = None \<and>
      (fld \<in> numeric_fields \<longrightarrow> (\<forall>t. v \<noteq> PStr t)) \<longrightarrow>
      map_sum id (\<lambda>r. (status r, comment r)) (compare_attribute repr a b fld) =
        Inr (''Non-Compliant'', ''No value in submittal.'')"
  proof
    assume h: "attr_value a = Some v \<and> attr_value b = None \<and>
      (fld \<in> numeric_fields \<longrightarrow> (\<forall>t. v \<noteq> PStr t))"
    with True obtain x where vx: "v = PNum x" by (cases v) auto
    obtain y where y: "normalise_field fld (Some (PNum x)) (attr_unit a) = Inr (Some (PNum y))"
      using normalise_field_num by blast
    have "map_sum id (\<lambda>r. (status r, comment r)) (compare_attribute repr a b fld) =
        compare_numeric repr (Some (PNum y)) (attr_unit a) None (attr_unit b) 5"
      using True by (rule compare_attribute_numeric) (simp_all add: h nn vx y)
    then show "map_sum id (\<lambda>r. (status r, comment r)) (compare_attribute repr a b fld) =
        Inr (''Non-Compliant'', ''No value in submittal.'')" by simp
  qed
  from both left right show ?thesis by blast
qed

text \<open>The theorem at three inputs: nothing on either side of the field power, a
  manufacturer only in the submittal, a power only on the nameplate.\<close>

theorem C7_missing_values_witness:
  "map_sum id (\<lambda>r. (status r, comment r))
     (compare_attribute (\<lambda>x. ''400.0'')
        \<lparr>attr_value = None, attr_unit = None, attr_source = []\<rparr>
        \<lparr>attr_value = None, attr_unit = None, attr_source = []\<rparr> ''power'') =
   Inr (''Not Found'', ''Value missing in both nameplate and submittal.'')
   \<and> map_sum id (\<lambda>r. (status r, comment r))
     (compare_attribute (\<lambda>x. ''400.0'')
        \<lparr>attr_value = None, attr_unit = None, attr_source = []\<rparr>
        \<lparr>attr_value = Some (PStr ''abb''), attr_unit = None, attr_source = []\<rparr> ''manufacturer'') =
   Inr (''Non-Compliant'', ''No value on nameplate.'')
   \<and> map_sum id (\<lambda>r. (status r, comment r))
     (compare_attribute (\<lambda>x. ''400.0'')
        \<lparr>attr_value = Some (PNum 400), attr_unit = Some ''w'', attr_source = []\<rparr>
        \<lparr>attr_value = None, attr_unit = None, attr_source = []\<rparr> ''power'') =
   Inr (''Non-Compliant'', ''No value in submittal.'')"
proof -
  have m: "''manufacturer'' \<notin> numeric_fields" by (simp add: numeric_fields_def)
  show ?thesis
    using C7_missing_values [where a = "\<lparr>attr_value = None, attr_unit = None, attr_source = []\<rparr>"
            and b = "\<lparr>attr_value = None, attr_unit = None, attr_source = []\<rparr>"
            and repr = "\<lambda>x. ''400.0''" and fld = "''power''"]
          C7_missing_values [where a = "\<lparr>attr_value = None, attr_unit = None, attr_source = []\<rparr>"
            and b = "\<lparr>attr_value = Some (PStr ''abb''), attr_unit = None, attr_source = []\<rparr>"
            and v = "PStr ''abb''" and repr = "\<lambda>x. ''400.0''" and fld = "''manufacturer''"]
          C7_missing_values [where
            a = "\<lparr>attr_value = Some (PNum 400), attr_unit = Some ''w'', attr_source = []\<rparr>"
            and b = "\<lparr>attr_value = None, attr_unit = None, attr_source = []\<rparr>"
            and v = "PNum 400" and repr = "\<lambda>x. ''400.0''" and fld = "''power''"]
          m
    by simp
qed

lemma compare_attribute_typed:
  assumes "fld \<in> numeric_fields \<longrightarrow>
      (\<forall>t. attr_value a \<noteq> Some (PStr t) \<and> attr_value b \<noteq> Some (PStr t))"
  shows "\<exists>r. compare_attribute repr a b fld = Inr r"
proof (cases "fld \<in> numeric_fields")
  case False
  then show ?thesis by (rule compare_attribute_categorical)
next
  case True
  have nf: "\<exists>x. normalise_field fld v u = Inr x \<and> (\<forall>t. x \<noteq> Some (PStr t))"
    if "\<forall>t. v \<noteq> Some (PStr t)" for v u
  proof (cases v)
    case None
    then show ?thesis by (simp add: normalise_field_None)
  next
    case (Some w)
    with that obtain k where "w = PNum k" by (cases w) auto
    with Some normalise_field_num [of fld k u] show ?thesis by auto
  qed
  from True assms obtain x where x: "normalise_field fld (attr_value a) (attr_unit a) = Inr x"
    and xt: "\<forall>t. x \<noteq> Some (PStr t)"
    using nf [of "attr_value a" "attr_unit a"] by auto
  from True assms obtain y where y: "normalise_field fld (attr_value b) (attr_unit b) = Inr y"
    and yt: "\<forall>t. y \<noteq> Some (PStr t)"
    using nf [of "attr_value b" "attr_unit b"] by auto
  have cn: "\<exists>p. compare_numeric repr x nu y su 5 = Inr p" for nu su
  proof (cases x)
    case None
    then show ?thesis by (cases y) simp_all
  next
    case sx: (Some vx)
    with xt obtain n where n: "vx = PNum n" by (cases vx) auto
    show ?thesis
    proof (cases y)
      case None
      with sx show ?thesis by simp
    next
      case (Some vy)
      with yt obtain s where "vy = PNum s" by (cases vy) auto
      with Some sx n show ?thesis by simp
    qed
  qed
  have "map_sum id (\<lambda>r. (status r, comment r)) (compare_attribute repr a b fld) =
      compare_numeric repr x (attr_unit a) y (attr_unit b) 5"
    using True x y by (rule compare_attribute_numeric)
  with cn [of "attr_unit a" "attr_unit b"] show ?thesis
    by (cases "compare_attribute repr a b fld") auto
qed

lemma compare_fields_all:
  assumes "\<forall>(nm, g) \<in> set fs. \<exists>r. compare_attribute repr (g n) (g s) nm = Inr r"
  shows "\<exists>rs. compare_fields repr n s fs = Inr rs \<and> map field rs = map fst fs \<and>
           map Inr rs = map (\<lambda>(nm, g). compare_attribute repr (g n) (g s) nm) fs"
  using assms
proof (induction fs)
  case Nil
  then show ?case by simp
next
  case (Cons f fs)
  obtain nm g where f: "f = (nm, g)" by (cases f)
  from Cons.prems f obtain r where r: "compare_attribute repr (g n) (g s) nm = Inr r"
    by auto
  from Cons obtain rs where rs: "compare_fields repr n s fs = Inr rs"
    and nms: "map field rs = map fst fs"
    and m: "map Inr rs = map (\<lambda>(nm, g). compare_attribute repr (g n) (g s) nm) fs"
    by auto
  have "field r = nm" using r by (rule compare_attribute_field)
  then show ?case using f r rs nms m by simp
qed

text \<open>
  Claim C8. For two equipment records whose numeric fields hold a number or nothing,
  \<^verbatim>\<open>compare_equipment\<close> returns nine results, one per declared field and in declaration
  order (manufacturer, model, serial_number, voltage, current, power, frequency,
  ip_rating, certification), each the result of \<^verbatim>\<open>compare_attribute\<close> on that field of
  the two records, whichever fields have values.
\<close>

theorem C8_one_verdict_per_field:
  assumes "\<forall>f \<in> {voltage, current, power, frequency}.
             \<forall>t. attr_value (f nameplate) \<noteq> Some (PStr t) \<and>
                 attr_value (f submittal) \<noteq> Some (PStr t)"
  shows "\<exists>rs. compare_equipment repr nameplate submittal = Inr rs \<and> length rs = 9 \<and>
           map field rs =
             [''manufacturer'', ''model'', ''serial_number'', ''voltage'', ''current'',
              ''power'', ''frequency'', ''ip_rating'', ''certification''] \<and>
           map Inr rs =
             map (\<lambda>(nm, g). compare_attribute repr (g nameplate) (g submittal) nm)
               dataclass_fields"
proof -
  have each: "\<forall>(nm, g) \<in> set dataclass_fields.
      \<exists>r. compare_attribute repr (g nameplate) (g submittal) nm = Inr r"
    unfolding dataclass_fields_def using assms
    by (auto intro!: compare_attribute_typed simp: numeric_fields_def)
  then obtain rs where rs: "compare_fields repr nameplate submittal dataclass_fields = Inr rs"
    and names: "map field rs = map fst dataclass_fields"
    and m: "map Inr rs =
      map (\<lambda>(nm, g). compare_attribute repr (g nameplate) (g submittal) nm) dataclass_fields"
    using compare_fields_all by blast
  have len: "length rs = 9"
    using arg_cong [OF names, of length] by (simp add: dataclass_fields_def)
  show ?thesis
    using rs m len names by (simp add: compare_equipment_def dataclass_fields_def)
qed

text \<open>The theorem at an empty nameplate record against a submittal with a voltage
  only.\<close>

theorem C8_one_verdict_per_field_witness:
  "\<exists>rs. compare_equipment (\<lambda>x. ''400.0'') new_EquipmentData
          (new_EquipmentData\<lparr>voltage := mk_AttributeValue (Some (PNum 400)) (Some ''v'') []\<rparr>) =
        Inr rs \<and> length rs = 9 \<and>
        map field rs =
          [''manufacturer'', ''model'', ''serial_number'', ''voltage'', ''current'',
           ''power'', ''frequency'', ''ip_rating'', ''certification'']"
  using C8_one_verdict_per_field [where nameplate = new_EquipmentData
      and submittal = "new_EquipmentData\<lparr>voltage := mk_AttributeValue (Some (PNum 400)) (Some ''v'') []\<rparr>"
      and repr = "\<lambda>x. ''400.0''"]
  by (auto simp: new_EquipmentData_def mk_AttributeValue_def Let_def)

text \<open>
  Claim C9. \<^verbatim>\<open>normalise_power\<close> leaves a value in kW or kVA unchanged and divides a
  value in W by 1000. On the field power the same number in kW and in kVA compares as
  Compliant, and 5000 W against 5 kW compares as Compliant.
\<close>

theorem C9_power_units:
  "normalise_power (PNum x) (Some ''kw'') = Inr (PNum x)
   \<and> normalise_power (PNum x) (Some ''kva'') = Inr (PNum x)
   \<and> normalise_power (PNum x) (Some ''w'') = Inr (PNum (x / 1000))
   \<and> map_sum id status
        (compare_attribute repr (mk_AttributeValue (Some (PNum x)) (Some ''kw'') [])
           (mk_AttributeValue (Some (PNum x)) (Some ''kva'') []) ''power'') = Inr ''Compliant''
   \<and> map_sum id status
        (compare_attribute repr (mk_AttributeValue (Some (PNum 5000)) (Some ''w'') [])
           (mk_AttributeValue (Some (PNum 5)) (Some ''kw'') []) ''power'') = Inr ''Compliant''"
proof -
  have l: "py_lower ''kw'' = ''kw''" "py_lower ''kva'' = ''kva''" "py_lower ''w'' = ''w''"
    by (simp_all add: py_lower_def lower_char_def ascii_upper_def ascii_lower_def)
  have s: "py_strip ''kw'' = ''kw''" "py_strip ''kva'' = ''kva''" "py_strip ''w'' = ''w''"
    by (simp_all add: py_strip_def is_space_def whitespace_def)
  have p: "''power'' \<in> numeric_fields" by (simp add: numeric_fields_def)
  have n1: "normalise_power (PNum x) (Some ''kw'') = Inr (PNum x)" by (simp add: l)
  have n2: "normalise_power (PNum x) (Some ''kva'') = Inr (PNum x)" by (simp add: l)
  have n3: "normalise_power (PNum y) (Some ''w'') = Inr (PNum (y / 1000))" for y
    by (simp add: l)
  have c1: "map_sum id status
        (compare_attribute repr (mk_AttributeValue (Some (PNum x)) (Some ''kw'') [])
           (mk_AttributeValue (Some (PNum x)) (Some ''kva'') []) ''power'') = Inr ''Compliant''"
    by (simp add: compare_attribute_def p normalise_field_def mk_AttributeValue_def s l)
  have c2: "map_sum id status
        (compare_attribute repr (mk_AttributeValue (Some (PNum 5000)) (Some ''w'') [])
           (mk_AttributeValue (Some (PNum 5)) (Some ''kw'') []) ''power'') = Inr ''Compliant''"
    by (simp add: compare_attribute_def p normalise_field_def mk_AttributeValue_def s l)
  from n1 n2 n3 [of x] c1 c2 show ?thesis by blast
qed

section \<open>Properties of the extraction\<close>

lemma rx_match_keeps:
  "(t, h) \<in> set (rx_match ic r s g) \<Longrightarrow> map_of g i \<noteq> None \<Longrightarrow> map_of h i \<noteq> None"
proof (induction r arbitrary: s g t h)
  case (Lit l)
  then show ?case by (auto split: option.splits)
next
  case (One p)
  then show ?case by (auto split: list.splits if_splits)
next
  case (Star p)
  then show ?case by auto
next
  case (Plus p)
  then show ?case by auto
next
  case (Seq a b)
  from Seq.prems(1) obtain t1 h1 where m1: "(t1, h1) \<in> set (rx_match ic a s g)"
    and m: "(t, h) \<in> set (rx_match ic b t1 h1)"
    by auto
  from Seq.IH(1) [OF m1 Seq.prems(2)] have "map_of h1 i \<noteq> None" .
  with Seq.IH(2) [OF m] show ?case .
next
  case (Alt a b)
  from Alt.prems(1) have "(t, h) \<in> set (rx_match ic a s g) \<or> (t, h) \<in> set (rx_match ic b s g)"
    by simp
  with Alt.IH Alt.prems(2) show ?case by blast
next
  case (Opt a)
  from Opt.prems(1) have "(t, h) \<in> set (rx_match ic a s g) \<or> h = g"
    by auto
  with Opt.IH Opt.prems(2) show ?case by blast
next
  case (Grp j a)
  from Grp.prems(1) obtain h1 where m1: "(t, h1) \<in> set (rx_match ic a s g)"
    and m: "h = (j, take (length s - length t) s) # h1"
    by auto
  from Grp.IH [OF m1 Grp.prems(2)] have "map_of h1 i \<noteq> None" .
  with m show ?case by simp
qed

lemma rx_match_Grp_binds:
  "(t, h) \<in> set (rx_match ic (Grp i a) s g) \<Longrightarrow> map_of h i \<noteq> None"
  by auto

lemma rx_match_Seq_binds_right:
  assumes "\<And>s g t h. (t, h) \<in> set (rx_match ic b s g) \<Longrightarrow> map_of h i \<noteq> None"
    and "(t, h) \<in> set (rx_match ic (Seq a b) s g)"
  shows "map_of h i \<noteq> None"
proof -
  from assms(2) obtain t1 h1 where "(t, h) \<in> set (rx_match ic b t1 h1)"
    by auto
  then show ?thesis by (rule assms(1))
qed

lemma rx_match_Seq_binds_left:
  assumes "\<And>s g t h. (t, h) \<in> set (rx_match ic a s g) \<Longrightarrow> map_of h i \<noteq> None"
    and "(t, h) \<in> set (rx_match ic (Seq a b) s g)"
  shows "map_of h i \<noteq> None"
proof -
  from assms(2) obtain t1 h1 where m1: "(t1, h1) \<in> set (rx_match ic a s g)"
    and m: "(t, h) \<in> set (rx_match ic b t1 h1)"
    by auto
  from m1 have "map_of h1 i \<noteq> None" by (rule assms(1))
  with m show ?thesis by (rule rx_match_keeps)
qed

lemma search_from_binds:
  assumes "\<And>s g t h. (t, h) \<in> set (rx_match ic r s g) \<Longrightarrow> map_of h i \<noteq> None"
    and "search_from ic r s = Some g"
  shows "map_of g i \<noteq> None"
  using assms(2)
proof (induction s)
  case Nil
  then obtain t ms where "rx_match ic r [] [] = (t, g) # ms"
    by (auto split: list.splits)
  then have "(t, g) \<in> set (rx_match ic r [] [])" by simp
  then show ?case by (rule assms(1))
next
  case (Cons c cs)
  show ?case
  proof (cases "rx_match ic r (c # cs) []")
    case Nil
    with Cons show ?thesis by simp
  next
    case (Cons m ms)
    with Cons.prems have "g = snd m" by simp
    with Cons have "(fst m, g) \<in> set (rx_match ic r (c # cs) [])" by simp
    then show ?thesis by (rule assms(1))
  qed
qed

lemma label_pattern_binds:
  "(t, h) \<in> set (rx_match ic (Seq a (Seq b (Grp 1 c))) s g) \<Longrightarrow> map_of h 1 \<noteq> None"
  by (erule rx_match_Seq_binds_right [rotated], erule rx_match_Seq_binds_right [rotated],
      erule rx_match_Grp_binds)

lemma number_unit_binds:
  "(t, h) \<in> set (rx_match ic (number_unit us) s g) \<Longrightarrow> map_of h 1 \<noteq> None"
  unfolding number_unit_def number_group_def
  by (erule rx_match_Seq_binds_left [rotated], erule rx_match_Grp_binds)

lemma label_value_total:
  assumes "p = Seq a (Seq b (Grp 1 c))" and "1 \<in> set (rx_groups p)"
  shows "\<exists>x. label_value p lower = Inr x"
proof (cases "search_from False p lower")
  case None
  then show ?thesis by (simp add: label_value_def re_search_def)
next
  case (Some g)
  have "map_of g 1 \<noteq> None"
    using label_pattern_binds Some unfolding assms(1) by (rule search_from_binds)
  then obtain t where "map_of g 1 = Some t" by auto
  with Some assms(2) show ?thesis
    by (simp add: label_value_def re_search_def group_def)
qed

lemma py_float_error: "py_float s = Inl e \<Longrightarrow> e = ValueError"
  by (auto simp: py_float_def Let_def split: list.splits if_splits)

lemma parse_numeric_with_unit_no_ValueError:
  "parse_numeric_with_unit text patterns \<noteq> Inl ValueError"
proof (induction patterns)
  case Nil
  show ?case by simp
next
  case (Cons p ps)
  have g: "group m i \<noteq> Inl ValueError" for m i
    by (simp add: group_def)
  show ?case
    using Cons g
    by (auto split: option.splits sum.splits dest: py_float_error)
qed

lemma numeric_value_total: "\<exists>x. numeric_value lower [number_unit us] = Inr x"
proof (cases "search_from True (number_unit us) lower")
  case None
  then show ?thesis by (simp add: numeric_value_def re_search_def bind_err_def)
next
  case (Some g)
  have "map_of g 1 \<noteq> None"
    using number_unit_binds Some by (rule search_from_binds)
  then obtain t where t: "map_of g 1 = Some t" by auto
  have gs: "rx_groups (number_unit us) = [1, 2]"
    by (induction us rule: alternatives.induct)
      (simp_all add: number_unit_def number_group_def ws_def)
  show ?thesis
  proof (cases "py_float (filter (\<lambda>c. c \<noteq> CHR '','') t)")
    case (Inl e)
    then have "e = ValueError" by (rule py_float_error)
    with Inl Some t gs show ?thesis
      by (simp add: numeric_value_def re_search_def bind_err_def group_def)
  next
    case (Inr v)
    with Some t gs show ?thesis
      by (simp add: numeric_value_def re_search_def bind_err_def group_def)
  qed
qed

lemma ip_value_total: "\<exists>x. ip_value lower = Inr x"
  by (cases "search_from False ip_pattern lower")
    (simp_all add: ip_value_def re_search_def bind_err_def group_def ip_pattern_def ws_def)

lemma label_patterns_total:
  "\<exists>x. label_value mfr_pattern lower = Inr x"
  "\<exists>x. label_value model_pattern lower = Inr x"
  "\<exists>x. label_value sn_pattern lower = Inr x"
  by (rule label_value_total;
      simp add: mfr_pattern_def model_pattern_def sn_pattern_def label_sep_def ws_def)+

lemma numeric_patterns_total:
  "\<exists>x. numeric_value lower voltage_patterns = Inr x"
  "\<exists>x. numeric_value lower current_patterns = Inr x"
  "\<exists>x. numeric_value lower power_patterns = Inr x"
  "\<exists>x. numeric_value lower frequency_patterns = Inr x"
  unfolding voltage_patterns_def current_patterns_def power_patterns_def frequency_patterns_def
  by (rule numeric_value_total)+

text \<open>The record that \<^verbatim>\<open>parse_nameplate_text\<close> returns, block by block.\<close>

lemma parse_nameplate_text_blocks:
  "\<exists>a1 a2 a3 a4 a5 a6 a7 a8.
     label_value mfr_pattern (py_lower text) = Inr a1 \<and>
     label_value model_pattern (py_lower text) = Inr a2 \<and>
     label_value sn_pattern (py_lower text) = Inr a3 \<and>
     numeric_value (py_lower text) voltage_patterns = Inr a4 \<and>
     numeric_value (py_lower text) current_patterns = Inr a5 \<and>
     numeric_value (py_lower text) power_patterns = Inr a6 \<and>
     numeric_value (py_lower text) frequency_patterns = Inr a7 \<and>
     ip_value (py_lower text) = Inr a8 \<and>
     parse_nameplate_text text =
       Inr (assign certification_update (cert_value (py_lower text))
           (assign ip_rating_update a8
           (assign frequency_update a7
           (assign power_update a6
           (assign current_update a5
           (assign voltage_update a4
           (assign serial_number_update a3
           (assign model_update a2
           (assign manufacturer_update a1 new_EquipmentData)))))))))"
proof -
  obtain a1 where a1: "label_value mfr_pattern (py_lower text) = Inr a1"
    using label_patterns_total(1) by blast
  obtain a2 where a2: "label_value model_pattern (py_lower text) = Inr a2"
    using label_patterns_total(2) by blast
  obtain a3 where a3: "label_value sn_pattern (py_lower text) = Inr a3"
    using label_patterns_total(3) by blast
  obtain a4 where a4: "numeric_value (py_lower text) voltage_patterns = Inr a4"
    using numeric_patterns_total(1) by blast
  obtain a5 where a5: "numeric_value (py_lower text) current_patterns = Inr a5"
    using numeric_patterns_total(2) by blast
  obtain a6 where a6: "numeric_value (py_lower text) power_patterns = Inr a6"
    using numeric_patterns_total(3) by blast
  obtain a7 where a7: "numeric_value (py_lower text) frequency_patterns = Inr a7"
    using numeric_patterns_total(4) by blast
  obtain a8 where a8: "ip_value (py_lower text) = Inr a8"
    using ip_value_total by blast
  have "parse_nameplate_text text =
       Inr (assign certification_update (cert_value (py_lower text))
           (assign ip_rating_update a8
           (assign frequency_update a7
           (assign power_update a6
           (assign current_update a5
           (assign voltage_update a4
           (assign serial_number_update a3
           (assign model_update a2
           (assign manufacturer_update a1 new_EquipmentData)))))))))"
    by (simp add: parse_nameplate_text_def Let_def bind_err_def a1 a2 a3 a4 a5 a6 a7 a8)
  with a1 a2 a3 a4 a5 a6 a7 a8 show ?thesis by blast
qed

lemma assign_fields:
  "manufacturer (assign manufacturer_update a d) = (case a of None \<Rightarrow> manufacturer d | Some x \<Rightarrow> x)"
  "model (assign model_update a d) = (case a of None \<Rightarrow> model d | Some x \<Rightarrow> x)"
  "serial_number (assign serial_number_update a d) = (case a of None \<Rightarrow> serial_number d | Some x \<Rightarrow> x)"
  "voltage (assign voltage_update a d) = (case a of None \<Rightarrow> voltage d | Some x \<Rightarrow> x)"
  "current (assign current_update a d) = (case a of None \<Rightarrow> current d | Some x \<Rightarrow> x)"
  "power (assign power_update a d) = (case a of None \<Rightarrow> power d | Some x \<Rightarrow> x)"
  "frequency (assign frequency_update a d) = (case a of None \<Rightarrow> frequency d | Some x \<Rightarrow> x)"
  "ip_rating (assign ip_rating_update a d) = (case a of None \<Rightarrow> ip_rating d | Some x \<Rightarrow> x)"
  "certification (assign certification_update a d) = (case a of None \<Rightarrow> certification d | Some x \<Rightarrow> x)"
  by (simp_all add: assign_def split: option.splits)

lemma assign_other:
  "manufacturer (assign model_update a d) = manufacturer d"
  "manufacturer (assign serial_number_update a d) = manufacturer d"
  "manufacturer (assign voltage_update a d) = manufacturer d"
  "manufacturer (assign current_update a d) = manufacturer d"
  "manufacturer (assign power_update a d) = manufacturer d"
  "manufacturer (assign frequency_update a d) = manufacturer d"
  "manufacturer (assign ip_rating_update a d) = manufacturer d"
  "manufacturer (assign certification_update a d) = manufacturer d"
  "model (assign manufacturer_update a d) = model d"
  "model (assign serial_number_update a d) = model d"
  "model (assign voltage_update a d) = model d"
  "model (assign current_update a d) = model d"
  "model (assign power_update a d) = model d"
  "model (assign frequency_update a d) = model d"
  "model (assign ip_rating_update a d) = model d"
  "model (assign certification_update a d) = model d"
  "serial_number (assign manufacturer_update a d) = serial_number d"
  "serial_number (assign model_update a d) = serial_number d"
  "serial_number (assign voltage_update a d) = serial_number d"
  "serial_number (assign current_update a d) = serial_number d"
  "serial_number (assign power_update a d) = serial_number d"
  "serial_number (assign frequency_update a d) = serial_number d"
  "serial_number (assign ip_rating_update a d) = serial_number d"
  "serial_number (assign certification_update a d) = serial_number d"
  "voltage (assign manufacturer_update a d) = voltage d"
  "voltage (assign model_update a d) = voltage d"
  "voltage (assign serial_number_update a d) = voltage d"
  "voltage (assign current_update a d) = voltage d"
  "voltage (assign power_update a d) = voltage d"
  "voltage (assign frequency_update a d) = voltage d"
  "voltage (assign ip_rating_update a d) = voltage d"
  "voltage (assign certification_update a d) = voltage d"
  "current (assign manufacturer_update a d) = current d"
  "current (assign model_update a d) = current d"
  "current (assign serial_number_update a d) = current d"
  "current (assign voltage_update a d) = current d"
  "current (assign power_update a d) = current d"
  "current (assign frequency_update a d) = current d"
  "current (assign ip_rating_update a d) = current d"
  "current (assign certification_update a d) = current d"
  "power (assign manufacturer_update a d) = power d"
  "power (assign model_update a d) = power d"
  "power (assign serial_number_update a d) = power d"
  "power (assign voltage_update a d) = power d"
  "power (assign current_update a d) = power d"
  "power (assign frequency_update a d) = power d"
  "power (assign ip_rating_update a d) = power d"
  "power (assign certification_update a d) = power d"
  "frequency (assign manufacturer_update a d) = frequency d"
  "frequency (assign model_update a d) = frequency d"
  "frequency (assign serial_number_update a d) = frequency d"
  "frequency (assign voltage_update a d) = frequency d"
  "frequency (assign current_update a d) = frequency d"
  "frequency (assign power_update a d) = frequency d"
  "frequency (assign ip_rating_update a d) = frequency d"
  "frequency (assign certification_update a d) = frequency d"
  "ip_rating (assign manufacturer_update a d) = ip_rating d"
  "ip_rating (assign model_update a d) = ip_rating d"
  "ip_rating (assign serial_number_update a d) = ip_rating d"
  "ip_rating (assign voltage_update a d) = ip_rating d"
  "ip_rating (assign current_update a d) = ip_rating d"
  "ip_rating (assign power_update a d) = ip_rating d"
  "ip_rating (assign frequency_update a d) = ip_rating d"
  "ip_rating (assign certification_update a d) = ip_rating d"
  "certification (assign manufacturer_update a d) = certification d"
  "certification (assign model_update a d) = certification d"
  "certification (assign serial_number_update a d) = certification d"
  "certification (assign voltage_update a d) = certification d"
  "certification (assign current_update a d) = certification d"
  "certification (assign power_update a d) = certification d"
  "certification (assign frequency_update a d) = certification d"
  "certification (assign ip_rating_update a d) = certification d"
  by (simp_all add: assign_def split: option.splits)

lemma new_EquipmentData_fields:
  "attr_value (manufacturer new_EquipmentData) = None"
  "attr_value (model new_EquipmentData) = None"
  "attr_value (serial_number new_EquipmentData) = None"
  "attr_value (voltage new_EquipmentData) = None"
  "attr_value (current new_EquipmentData) = None"
  "attr_value (power new_EquipmentData) = None"
  "attr_value (frequency new_EquipmentData) = None"
  "attr_value (ip_rating new_EquipmentData) = None"
  "attr_value (certification new_EquipmentData) = None"
  by (simp_all add: new_EquipmentData_def mk_AttributeValue_def Let_def)

lemma label_value_None:
  "re_search False p lower = None \<Longrightarrow> label_value p lower = Inr None"
  by (simp add: label_value_def)

lemma numeric_value_None:
  "re_search True p lower = None \<Longrightarrow> numeric_value lower [p] = Inr None"
  by (simp add: numeric_value_def bind_err_def)

lemma ip_value_None:
  "re_search False ip_pattern lower = None \<Longrightarrow> ip_value lower = Inr None"
  by (simp add: ip_value_def)

lemma cert_value_None:
  "\<not> (\<exists>k \<in> set cert_keywords. py_in k lower) \<Longrightarrow> cert_value lower = None"
  by (simp add: cert_value_def certs_of_def Let_def filter_empty_conv)

lemma cert_value_Some:
  "k \<in> set cert_keywords \<Longrightarrow> py_in k lower \<Longrightarrow>
     cert_value lower =
       Some (mk_AttributeValue (Some (PStr (py_join '', '' (certs_of lower)))) None []) \<and>
     py_upper k \<in> set (certs_of lower)"
  by (auto simp: cert_value_def certs_of_def Let_def filter_empty_conv)

lemma starts_with_append: "starts_with k (k @ r)"
  by (induction k) simp_all

lemma starts_with_py_in: "starts_with k s \<Longrightarrow> py_in k s"
  by (cases s) simp_all

lemma py_in_append_left: "py_in k s \<Longrightarrow> py_in k (p @ s)"
proof (induction p)
  case Nil
  then show ?case by simp
next
  case (Cons c p)
  then show ?case by simp
qed

lemma py_in_join: "x \<in> set xs \<Longrightarrow> py_in x (py_join sep xs)"
proof (induction sep xs rule: py_join.induct)
  case (1 sep)
  then show ?case by simp
next
  case (2 sep y)
  then have "x = y" by simp
  moreover have "starts_with y (y @ [])" by (rule starts_with_append)
  ultimately show ?case by (simp add: starts_with_py_in)
next
  case (3 sep y z zs)
  show ?case
  proof (cases "x = y")
    case True
    have "starts_with y (y @ sep @ py_join sep (z # zs))" by (rule starts_with_append)
    with True show ?thesis by (simp add: starts_with_py_in)
  next
    case False
    with 3 have "py_in x (py_join sep (z # zs))" by simp
    then have "py_in x ((y @ sep) @ py_join sep (z # zs))" by (rule py_in_append_left)
    then show ?thesis by simp
  qed
qed

text \<open>
  Claim C5. Extraction is total: for every text \<^verbatim>\<open>parse_nameplate_text\<close> returns a
  record and raises nothing. A field whose pattern finds nothing in the lower-cased text
  has the value \<^verbatim>\<open>None\<close>: a missing label, no number followed by a unit, no IP token,
  no certification keyword. On the empty text the result is the record in which every
  value is \<^verbatim>\<open>None\<close>. \<^verbatim>\<open>parse_numeric_with_unit\<close> never raises \<^verbatim>\<open>ValueError\<close>: a
  capture that \<^verbatim>\<open>float\<close> cannot read makes it go on to the next pattern.
\<close>

theorem C5_extraction_total:
  "(\<exists>d. parse_nameplate_text text = Inr d \<and>
      (re_search False mfr_pattern (py_lower text) = None \<longrightarrow> attr_value (manufacturer d) = None) \<and>
      (re_search False model_pattern (py_lower text) = None \<longrightarrow> attr_value (model d) = None) \<and>
      (re_search False sn_pattern (py_lower text) = None \<longrightarrow>
         attr_value (serial_number d) = None) \<and>
      (re_search True (number_unit [''v'', ''vac'', ''volts'']) (py_lower text) = None \<longrightarrow>
         attr_value (voltage d) = None) \<and>
      (re_search True (number_unit [''a'', ''amps'', ''ampere'']) (py_lower text) = None \<longrightarrow>
         attr_value (current d) = None) \<and>
      (re_search True (number_unit [''kw'', ''kva'', ''w'']) (py_lower text) = None \<longrightarrow>
         attr_value (power d) = None) \<and>
      (re_search True (number_unit [''hz'']) (py_lower text) = None \<longrightarrow>
         attr_value (frequency d) = None) \<and>
      (re_search False ip_pattern (py_lower text) = None \<longrightarrow> attr_value (ip_rating d) = None) \<and>
      (\<not> (\<exists>k \<in> set cert_keywords. py_in k (py_lower text)) \<longrightarrow>
         attr_value (certification d) = None))
   \<and> parse_nameplate_text [] = Inr new_EquipmentData
   \<and> map (\<lambda>(nm, g). attr_value (g new_EquipmentData)) dataclass_fields = replicate 9 None
   \<and> parse_numeric_with_unit t patterns \<noteq> Inl ValueError
   \<and> (re_search True p t = Some m \<and> group m 1 = Inr (Some g1) \<and>
        py_float (filter (\<lambda>c. c \<noteq> CHR '','') g1) = Inl ValueError \<longrightarrow>
        parse_numeric_with_unit t (p # patterns) = parse_numeric_with_unit t patterns)"
proof -
  obtain a1 a2 a3 a4 a5 a6 a7 a8 where
    a1: "label_value mfr_pattern (py_lower text) = Inr a1" and
    a2: "label_value model_pattern (py_lower text) = Inr a2" and
    a3: "label_value sn_pattern (py_lower text) = Inr a3" and
    a4: "numeric_value (py_lower text) voltage_patterns = Inr a4" and
    a5: "numeric_value (py_lower text) current_patterns = Inr a5" and
    a6: "numeric_value (py_lower text) power_patterns = Inr a6" and
    a7: "numeric_value (py_lower text) frequency_patterns = Inr a7" and
    a8: "ip_value (py_lower text) = Inr a8" and
    d: "parse_nameplate_text text =
       Inr (assign certification_update (cert_value (py_lower text))
           (assign ip_rating_update a8
           (assign frequency_update a7
           (assign power_update a6
           (assign current_update a5
           (assign voltage_update a4
           (assign serial_number_update a3
           (assign model_update a2
           (assign manufacturer_update a1 new_EquipmentData)))))))))"
    using parse_nameplate_text_blocks [of "text"] by blast
  let ?d = "assign certification_update (cert_value (py_lower text))
           (assign ip_rating_update a8
           (assign frequency_update a7
           (assign power_update a6
           (assign current_update a5
           (assign voltage_update a4
           (assign serial_number_update a3
           (assign model_update a2
           (assign manufacturer_update a1 new_EquipmentData))))))))"
  have f1: "re_search False mfr_pattern (py_lower text) = None \<longrightarrow>
      attr_value (manufacturer ?d) = None"
    using a1 by (auto simp: label_value_None assign_other assign_fields new_EquipmentData_fields)
  have f2: "re_search False model_pattern (py_lower text) = None \<longrightarrow>
      attr_value (model ?d) = None"
    using a2 by (auto simp: label_value_None assign_other assign_fields new_EquipmentData_fields)
  have f3: "re_search False sn_pattern (py_lower text) = None \<longrightarrow>
      attr_value (serial_number ?d) = None"
    using a3 by (auto simp: label_value_None assign_other assign_fields new_EquipmentData_fields)
  have f4: "re_search True (number_unit [''v'', ''vac'', ''volts'']) (py_lower text) = None \<longrightarrow>
      attr_value (voltage ?d) = None"
    using a4 unfolding voltage_patterns_def
    by (auto simp: numeric_value_None assign_other assign_fields new_EquipmentData_fields)
  have f5: "re_search True (number_unit [''a'', ''amps'', ''ampere'']) (py_lower text) = None \<longrightarrow>
      attr_value (current ?d) = None"
    using a5 unfolding current_patterns_def
    by (auto simp: numeric_value_None assign_other assign_fields new_EquipmentData_fields)
  have f6: "re_search True (number_unit [''kw'', ''kva'', ''w'']) (py_lower text) = None \<longrightarrow>
      attr_value (power ?d) = None"
    using a6 unfolding power_patterns_def
    by (auto simp: numeric_value_None assign_other assign_fields new_EquipmentData_fields)
  have f7: "re_search True (number_unit [''hz'']) (py_lower text) = None \<longrightarrow>
      attr_value (frequency ?d) = None"
    using a7 unfolding frequency_patterns_def
    by (auto simp: numeric_value_None assign_other assign_fields new_EquipmentData_fields)
  have f8: "re_search False ip_pattern (py_lower text) = None \<longrightarrow>
      attr_value (ip_rating ?d) = None"
    using a8 by (auto simp: ip_value_None assign_other assign_fields new_EquipmentData_fields)
  have f9: "\<not> (\<exists>k \<in> set cert_keywords. py_in k (py_lower text)) \<longrightarrow>
      attr_value (certification ?d) = None"
  proof
    assume "\<not> (\<exists>k \<in> set cert_keywords. py_in k (py_lower text))"
    then have "cert_value (py_lower text) = None" by (rule cert_value_None)
    then show "attr_value (certification ?d) = None"
      by (simp add: assign_other assign_fields new_EquipmentData_fields)
  qed
  have total: "\<exists>d. parse_nameplate_text text = Inr d \<and>
      (re_search False mfr_pattern (py_lower text) = None \<longrightarrow> attr_value (manufacturer d) = None) \<and>
      (re_search False model_pattern (py_lower text) = None \<longrightarrow> attr_value (model d) = None) \<and>
      (re_search False sn_pattern (py_lower text) = None \<longrightarrow>
         attr_value (serial_number d) = None) \<and>
      (re_search True (number_unit [''v'', ''vac'', ''volts'']) (py_lower text) = None \<longrightarrow>
         attr_value (voltage d) = None) \<and>
      (re_search True (number_unit [''a'', ''amps'', ''ampere'']) (py_lower text) = None \<longrightarrow>
         attr_value (current d) = None) \<and>
      (re_search True (number_unit [''kw'', ''kva'', ''w'']) (py_lower text) = None \<longrightarrow>
         attr_value (power d) = None) \<and>
      (re_search True (number_unit [''hz'']) (py_lower text) = None \<longrightarrow>
         attr_value (frequency d) = None) \<and>
      (re_search False ip_pattern (py_lower text) = None \<longrightarrow> attr_value (ip_rating d) = None) \<and>
      (\<not> (\<exists>k \<in> set cert_keywords. py_in k (py_lower text)) \<longrightarrow>
         attr_value (certification d) = None)"
    unfolding d
    by (intro exI [of _ ?d] conjI refl f1 f2 f3 f4 f5 f6 f7 f8 f9)
  have empty: "parse_nameplate_text [] = Inr new_EquipmentData"
    by code_simp
  have nones: "map (\<lambda>(nm, g). attr_value (g new_EquipmentData)) dataclass_fields = replicate 9 None"
    by (simp add: dataclass_fields_def new_EquipmentData_fields numeral_eq_Suc)
  have nv: "parse_numeric_with_unit t patterns \<noteq> Inl ValueError"
    by (rule parse_numeric_with_unit_no_ValueError)
  have skip: "re_search True p t = Some m \<and> group m 1 = Inr (Some g1) \<and>
        py_float (filter (\<lambda>c. c \<noteq> CHR '','') g1) = Inl ValueError \<longrightarrow>
        parse_numeric_with_unit t (p # patterns) = parse_numeric_with_unit t patterns"
    by simp
  show ?thesis
    by (intro conjI total empty nones nv skip)
qed

text \<open>The theorem at the text "Pump 12", in which no pattern finds anything, and at a
  pattern whose first group captures "x", which \<^verbatim>\<open>float\<close> cannot read.\<close>

theorem C5_extraction_total_witness:
  "(\<exists>d. parse_nameplate_text ''Pump 12'' = Inr d \<and>
      attr_value (manufacturer d) = None \<and> attr_value (model d) = None \<and>
      attr_value (serial_number d) = None \<and> attr_value (voltage d) = None \<and>
      attr_value (current d) = None \<and> attr_value (power d) = None \<and>
      attr_value (frequency d) = None \<and> attr_value (ip_rating d) = None \<and>
      attr_value (certification d) = None)
   \<and> parse_numeric_with_unit ''x'' [Grp 1 (Lit ''x'')] = Inr (None, None)"
proof -
  have l: "py_lower ''Pump 12'' = ''pump 12''" by code_simp
  have h1: "re_search False mfr_pattern ''pump 12'' = None" by code_simp
  have h2: "re_search False model_pattern ''pump 12'' = None" by code_simp
  have h3: "re_search False sn_pattern ''pump 12'' = None" by code_simp
  have h4: "re_search True (number_unit [''v'', ''vac'', ''volts'']) ''pump 12'' = None"
    by code_simp
  have h5: "re_search True (number_unit [''a'', ''amps'', ''ampere'']) ''pump 12'' = None"
    by code_simp
  have h6: "re_search True (number_unit [''kw'', ''kva'', ''w'']) ''pump 12'' = None"
    by code_simp
  have h7: "re_search True (number_unit [''hz'']) ''pump 12'' = None" by code_simp
  have h8: "re_search False ip_pattern ''pump 12'' = None" by code_simp
  have h9: "\<not> (\<exists>k \<in> set cert_keywords. py_in k ''pump 12'')" by code_simp
  have s1: "re_search True (Grp 1 (Lit ''x'')) ''x'' = Some ([1], [(1, ''x'')])" by code_simp
  have s2: "group ([1], [(1, ''x'')]) 1 = Inr (Some ''x'')" by code_simp
  have s3: "py_float (filter (\<lambda>c. c \<noteq> CHR '','') ''x'') = Inl ValueError" by code_simp
  note T = C5_extraction_total [of "''Pump 12''" "''x''" "[]" "Grp 1 (Lit ''x'')"
      "([1], [(1, ''x'')])" "''x''", unfolded l]
  from T [THEN conjunct1] obtain d where D:
    "parse_nameplate_text ''Pump 12'' = Inr d \<and>
      (re_search False mfr_pattern ''pump 12'' = None \<longrightarrow> attr_value (manufacturer d) = None) \<and>
      (re_search False model_pattern ''pump 12'' = None \<longrightarrow> attr_value (model d) = None) \<and>
      (re_search False sn_pattern ''pump 12'' = None \<longrightarrow> attr_value (serial_number d) = None) \<and>
      (re_search True (number_unit [''v'', ''vac'', ''volts'']) ''pump 12'' = None \<longrightarrow>
         attr_value (voltage d) = None) \<and>
      (re_search True (number_unit [''a'', ''amps'', ''ampere'']) ''pump 12'' = None \<longrightarrow>
         attr_value (current d) = None) \<and>
      (re_search True (number_unit [''kw'', ''kva'', ''w'']) ''pump 12'' = None \<longrightarrow>
         attr_value (power d) = None) \<and>
      (re_search True (number_unit [''hz'']) ''pump 12'' = None \<longrightarrow>
         attr_value (frequency d) = None) \<and>
      (re_search False ip_pattern ''pump 12'' = None \<longrightarrow> attr_value (ip_rating d) = None) \<and>
      (\<not> (\<exists>k \<in> set cert_keywords. py_in k ''pump 12'') \<longrightarrow>
         attr_value (certification d) = None)"
    by (rule exE)
  note c = conjunct2
  have d: "parse_nameplate_text ''Pump 12'' = Inr d" by (rule D [THEN conjunct1])
  have m1: "attr_value (manufacturer d) = None"
    by (rule mp [OF D [THEN c, THEN conjunct1] h1])
  have m2: "attr_value (model d) = None"
    by (rule mp [OF D [THEN c, THEN c, THEN conjunct1] h2])
  have m3: "attr_value (serial_number d) = None"
    by (rule mp [OF D [THEN c, THEN c, THEN c, THEN conjunct1] h3])
  have m4: "attr_value (voltage d) = None"
    by (rule mp [OF D [THEN c, THEN c, THEN c, THEN c, THEN conjunct1] h4])
  have m5: "attr_value (current d) = None"
    by (rule mp [OF D [THEN c, THEN c, THEN c, THEN c, THEN c, THEN conjunct1] h5])
  have m6: "attr_value (power d) = None"
    by (rule mp [OF D [THEN c, THEN c, THEN c, THEN c, THEN c, THEN c, THEN conjunct1] h6])
  have m7: "attr_value (frequency d) = None"
    by (rule mp [OF D [THEN c, THEN c, THEN c, THEN c, THEN c, THEN c, THEN c, THEN conjunct1] h7])
  have m8: "attr_value (ip_rating d) = None"
    by (rule mp [OF D [THEN c, THEN c, THEN c, THEN c, THEN c, THEN c, THEN c, THEN c,
          THEN conjunct1] h8])
  have m9: "attr_value (certification d) = None"
    by (rule mp [OF D [THEN c, THEN c, THEN c, THEN c, THEN c, THEN c, THEN c, THEN c, THEN c] h9])
  have "parse_numeric_with_unit ''x'' [Grp 1 (Lit ''x'')] = parse_numeric_with_unit ''x'' []"
    by (rule mp [OF T [THEN c, THEN c, THEN c, THEN c]]) (intro conjI s1 s2 s3)
  then have skip: "parse_numeric_with_unit ''x'' [Grp 1 (Lit ''x'')] = Inr (None, None)"
    by (simp only: parse_numeric_with_unit.simps(1))
  have "\<exists>d. parse_nameplate_text ''Pump 12'' = Inr d \<and>
      attr_value (manufacturer d) = None \<and> attr_value (model d) = None \<and>
      attr_value (serial_number d) = None \<and> attr_value (voltage d) = None \<and>
      attr_value (current d) = None \<and> attr_value (power d) = None \<and>
      attr_value (frequency d) = None \<and> attr_value (ip_rating d) = None \<and>
      attr_value (certification d) = None"
    by (intro exI [of _ d] conjI d m1 m2 m3 m4 m5 m6 m7 m8 m9)
  then show ?thesis using skip by (rule conjI)
qed

text \<open>
  Claim C10. Certification keywords are found by substring containment: when one of
  "atex", "ce", "ul" occurs anywhere in the lower-cased text, inside a longer word
  included, the extracted certification is the comma-joined list of the upper-cased
  keywords found, and the upper-cased keyword occurs in it. "Certificate" yields CE
  and "modular" yields UL.
\<close>

theorem C10_certification_substring:
  assumes "k \<in> set cert_keywords" and "py_in k (py_lower text)"
  shows "(\<exists>d. parse_nameplate_text text = Inr d \<and>
            attr_value (certification d) =
              Some (PStr (py_join '', '' (certs_of (py_lower text)))))
       \<and> py_upper k \<in> set (certs_of (py_lower text))
       \<and> py_in (py_upper k) (py_join '', '' (certs_of (py_lower text)))
       \<and> map_sum id (\<lambda>d. attr_value (certification d)) (parse_nameplate_text ''Certificate'') =
           Inr (Some (PStr ''CE''))
       \<and> map_sum id (\<lambda>d. attr_value (certification d)) (parse_nameplate_text ''modular'') =
           Inr (Some (PStr ''UL''))"
proof -
  obtain a1 a2 a3 a4 a5 a6 a7 a8 where
    d: "parse_nameplate_text text =
       Inr (assign certification_update (cert_value (py_lower text))
           (assign ip_rating_update a8
           (assign frequency_update a7
           (assign power_update a6
           (assign current_update a5
           (assign voltage_update a4
           (assign serial_number_update a3
           (assign model_update a2
           (assign manufacturer_update a1 new_EquipmentData)))))))))"
    using parse_nameplate_text_blocks [of "text"] by blast
  from assms have cv: "cert_value (py_lower text) =
       Some (mk_AttributeValue (Some (PStr (py_join '', '' (certs_of (py_lower text))))) None [])"
    and up: "py_upper k \<in> set (certs_of (py_lower text))"
    using cert_value_Some by blast+
  have val: "\<exists>d. parse_nameplate_text text = Inr d \<and>
      attr_value (certification d) = Some (PStr (py_join '', '' (certs_of (py_lower text))))"
    unfolding d by (simp add: cv assign_fields mk_AttributeValue_def)
  from up have occ: "py_in (py_upper k) (py_join '', '' (certs_of (py_lower text)))"
    by (rule py_in_join)
  have e1: "map_sum id (\<lambda>d. attr_value (certification d)) (parse_nameplate_text ''Certificate'') =
      Inr (Some (PStr ''CE''))"
    by code_simp
  have e2: "map_sum id (\<lambda>d. attr_value (certification d)) (parse_nameplate_text ''modular'') =
      Inr (Some (PStr ''UL''))"
    by code_simp
  show ?thesis
    by (intro conjI val up occ e1 e2)
qed

text \<open>The theorem at the text "Interface" and the keyword "ce".\<close>

theorem C10_certification_substring_witness:
  "(\<exists>d. parse_nameplate_text ''Interface'' = Inr d \<and>
       attr_value (certification d) = Some (PStr ''CE''))
   \<and> py_in ''CE'' ''CE''"
proof -
  have k: "''ce'' \<in> set cert_keywords" by (simp add: cert_keywords_def)
  have i: "py_in ''ce'' (py_lower ''Interface'')" by code_simp
  have c: "certs_of (py_lower ''Interface'') = [''CE'']" by code_simp
  have u: "py_upper ''ce'' = ''CE''" by code_simp
  show ?thesis
    using C10_certification_substring [OF k i] unfolding c u by simp
qed

text \<open>
  Claim C1 as stated fails: on "Manufacturer: ABB Model: M100 400V 50Hz IP65 ATEX CE"
  the manufacturer is not "abb". The value class \<^verbatim>\<open>[\w\s&\.]+\<close> of the manufacturer
  pattern contains blanks, so the greedy capture runs on over " model" and stops at the
  colon.
\<close>

theorem C1_manufacturer_not_abb:
  "map_sum id (\<lambda>d. attr_value (manufacturer d))
     (parse_nameplate_text ''Manufacturer: ABB Model: M100 400V 50Hz IP65 ATEX CE'') \<noteq>
   Inr (Some (PStr ''abb''))"
  by code_simp

text \<open>
  Claim C1, amended. On that text \<^verbatim>\<open>parse_nameplate_text\<close> returns the record with
  manufacturer "abb model", model "m100", voltage (400, "v"), frequency (50, "hz"),
  ip_rating "IP65" and certification "ATEX, CE". The same record has no serial number and
  no power, and its current is (65, "a"), read from "65 a" in "ip65 atex".
\<close>

theorem C1_end_to_end_example:
  "parse_nameplate_text ''Manufacturer: ABB Model: M100 400V 50Hz IP65 ATEX CE'' =
     Inr \<lparr>manufacturer = mk_AttributeValue (Some (PStr ''abb model'')) None [],
          model = mk_AttributeValue (Some (PStr ''m100'')) None [],
          serial_number = mk_AttributeValue None None [],
          voltage = mk_AttributeValue (Some (PNum 400)) (Some ''v'') [],
          current = mk_AttributeValue (Some (PNum 65)) (Some ''a'') [],
          power = mk_AttributeValue None None [],
          frequency = mk_AttributeValue (Some (PNum 50)) (Some ''hz'') [],
          ip_rating = mk_AttributeValue (Some (PStr ''IP65'')) None [],
          certification = mk_AttributeValue (Some (PStr ''ATEX, CE'')) None []\<rparr>"
  by code_simp

text \<open>
  Claim C4 on the code. On "1,000 V" the stored voltage is (0, "v"): the number pattern
  \<^verbatim>\<open>[0-9]+(?:\.[0-9]+)?\<close> has no comma, so the search matches "000 v" and the first
  group is "000"; \<^verbatim>\<open>.replace(",", "")\<close> finds nothing to strip.
\<close>

theorem C4_thousands_separator_lost:
  "map_sum id voltage (parse_nameplate_text ''1,000 V'') =
     Inr (mk_AttributeValue (Some (PNum 0)) (Some ''v'') [])
   \<and> re_search True (number_unit [''v'', ''vac'', ''volts'']) ''1,000 v'' =
     Some ([1, 2], [(2, ''v''), (1, ''000'')])"
  by code_simp

section \<open>Properties of compare_numeric on doubles\<close>








end
